theory Spec2Isabelle
  imports Complex_Main
begin

section \<open>Numbers, rounding and the results store\<close>

text \<open>
  The ratio functions of \<^verbatim>\<open>fundamental_ratios.py\<close> work on Python numbers. The model
  uses exact real arithmetic: \<open>/\<close> raises \<^verbatim>\<open>ZeroDivisionError\<close> on a zero divisor, as
  Python's own int and float do, and \<^verbatim>\<open>round(x, n)\<close> rounds half to even at \<open>n\<close>
  decimals. Binary floating-point rounding error, infinities and NaN are outside the model.
\<close>

datatype error =
    ZeroDivisionError
  | KeyError
  | IndexError
  | FetchError string

definition py_div :: "real \<Rightarrow> real \<Rightarrow> error + real" where
  "py_div a b = (if b = 0 then Inl ZeroDivisionError else Inr (a / b))"

definition round_half_even :: "real \<Rightarrow> int" where
  "round_half_even x =
     (let f = \<lfloor>x\<rfloor>; d = x - of_int f
      in if d < 1 / 2 then f
         else if 1 / 2 < d then f + 1
         else if even f then f else f + 1)"

definition py_round :: "real \<Rightarrow> nat \<Rightarrow> real" where
  "py_round x ndigits = of_int (round_half_even (x * 10 ^ ndigits)) / 10 ^ ndigits"

text \<open>
  The value of \<^verbatim>\<open>pd.NA\<close> is the missing marker; a deposited entry is either a number
  or the marker. The results store (\<^verbatim>\<open>concurrency_manager\<close>) maps a ratio name to a
  dictionary from names to entries.
\<close>

datatype entry = Num real | NA

type_synonym store = "string \<rightharpoonup> (string \<rightharpoonup> entry)"

text \<open>
  A call either returns a value (\<open>Inr\<close>; Python's \<^verbatim>\<open>None\<close> is \<open>None\<close>) or lets an
  exception propagate (\<open>Inl\<close>). The store is mutated in place, so the model returns the
  store as it stands when the call ends, in both cases.
\<close>

type_synonym outcome = "(error + real option) \<times> store"

section \<open>The data the collaborators hand over\<close>

text \<open>
  A fundamentals table is a pandas frame: row labels \<open>(code, name)\<close> and one column per
  filing date. A column carries its label and its cell for every row label. Column
  labels are modelled as strings, so that \<^verbatim>\<open>str(date)\<close> is the label itself.
\<close>

type_synonym line_item = "int \<times> string"

record table =
  index :: "line_item list"
  columns :: "(string \<times> (line_item \<Rightarrow> real)) list"

text \<open>
  The security handle, seen through its accessors: each fetch either raises or returns
  its data. \<open>prices\<close> is the series \<^verbatim>\<open>get_prices()["c"]\<close>, \<open>shares\<close> is
  \<^verbatim>\<open>get_stock_infos()["weighted_shares_outstanding"]\<close>, \<open>dividends\<close> is the column
  \<^verbatim>\<open>get_dividends(...)["cash_amount"]\<close>.
\<close>

record stock =
  income_statement :: "error + table"
  balance_sheet :: "error + table"
  prices :: "error + real list"
  shares :: "error + real"
  dividends :: "error + real list"

text \<open>
  \<^verbatim>\<open>frame.loc[key][0]\<close>: the row of \<open>key\<close> (\<^verbatim>\<open>KeyError\<close> when the frame has no such
  row), then its first cell (\<^verbatim>\<open>IndexError\<close> when the frame has no column).
\<close>

definition loc_first :: "table \<Rightarrow> line_item \<Rightarrow> error + real" where
  "loc_first t key =
     (if key \<notin> set (index t) then Inl KeyError
      else case columns t of [] \<Rightarrow> Inl IndexError | c # _ \<Rightarrow> Inr (snd c key))"

text \<open>\<^verbatim>\<open>series[-1]\<close>: the last element, \<^verbatim>\<open>IndexError\<close> on an empty series.\<close>

definition last_price :: "real list \<Rightarrow> error + real" where
  "last_price ps = (if ps = [] then Inl IndexError else Inr (last ps))"

section \<open>Current ratio, return on equity, return on assets\<close>

definition current_ratio :: "stock \<Rightarrow> store \<Rightarrow> outcome" where
  "current_ratio stock_class concurrency_manager =
     (case balance_sheet stock_class of
        Inl e \<Rightarrow> (Inl e, concurrency_manager)
      | Inr fundamental_data \<Rightarrow>
     (case loc_first fundamental_data (100, ''Assets'') of
        Inl e \<Rightarrow> (Inl e, concurrency_manager)
      | Inr assets \<Rightarrow>
     (case loc_first fundamental_data (600, ''Liabilities'') of
        Inl e \<Rightarrow> (Inl e, concurrency_manager)
      | Inr liabilities \<Rightarrow>
     (case py_div assets liabilities of
        Inr ratio \<Rightarrow>
          (Inr (Some (py_round ratio 2)),
           concurrency_manager(''Current Ratio'' \<mapsto> [''Current Ratio'' \<mapsto> Num (py_round ratio 2)]))
      | Inl ZeroDivisionError \<Rightarrow>
          (Inr None, concurrency_manager(''Current Ratio'' \<mapsto> [''Current Ratio'' \<mapsto> NA]))
      | Inl e \<Rightarrow> (Inl e, concurrency_manager)))))"

definition ro_equity :: "stock \<Rightarrow> store \<Rightarrow> outcome" where
  "ro_equity stock_class concurrency_manager =
     (case balance_sheet stock_class of
        Inl e \<Rightarrow> (Inl e, concurrency_manager)
      | Inr bs \<Rightarrow>
     (case loc_first bs (1400, ''Equity'') of
        Inl e \<Rightarrow> (Inl e, concurrency_manager)
      | Inr equity \<Rightarrow>
     (case income_statement stock_class of
        Inl e \<Rightarrow> (Inl e, concurrency_manager)
      | Inr inc \<Rightarrow>
     (case loc_first inc (3200, ''Net Income/Loss'') of
        Inl e \<Rightarrow> (Inl e, concurrency_manager)
      | Inr income \<Rightarrow>
     (case py_div income equity of
        Inr roe \<Rightarrow>
          (Inr (Some (py_round roe 2)),
           concurrency_manager(''ROE'' \<mapsto> [''ROE'' \<mapsto> Num (py_round roe 2)]))
      | Inl ZeroDivisionError \<Rightarrow>
          (Inr None, concurrency_manager(''ROE'' \<mapsto> [''ROE'' \<mapsto> NA]))
      | Inl e \<Rightarrow> (Inl e, concurrency_manager))))))"

definition ro_assets :: "stock \<Rightarrow> store \<Rightarrow> outcome" where
  "ro_assets stock_class concurrency_manager =
     (case balance_sheet stock_class of
        Inl e \<Rightarrow> (Inl e, concurrency_manager)
      | Inr bs \<Rightarrow>
     (case loc_first bs (100, ''Assets'') of
        Inl e \<Rightarrow> (Inl e, concurrency_manager)
      | Inr assets \<Rightarrow>
     (case income_statement stock_class of
        Inl e \<Rightarrow> (Inl e, concurrency_manager)
      | Inr inc \<Rightarrow>
     (case loc_first inc (3200, ''Net Income/Loss'') of
        Inl e \<Rightarrow> (Inl e, concurrency_manager)
      | Inr income \<Rightarrow>
     (case py_div income assets of
        Inr roa \<Rightarrow>
          (Inr (Some (py_round roa 2)),
           concurrency_manager(''ROA'' \<mapsto> [''ROA'' \<mapsto> Num (py_round roa 2)]))
      | Inl ZeroDivisionError \<Rightarrow>
          (Inr None, concurrency_manager(''ROA'' \<mapsto> [''ROA'' \<mapsto> NA]))
      | Inl e \<Rightarrow> (Inl e, concurrency_manager))))))"

section \<open>Price to book\<close>

text \<open>
  The two \<^verbatim>\<open>start\<close>/\<open>end\<close> strings computed at the top of \<^verbatim>\<open>pb_ratio\<close> are never
  used and are left out. Both divisions sit inside the \<^verbatim>\<open>try\<close>: the inner one
  (\<^verbatim>\<open>equity / shares\<close>) is evaluated first.
\<close>

definition pb_ratio :: "stock \<Rightarrow> store \<Rightarrow> outcome" where
  "pb_ratio stock_class concurrency_manager =
     (case balance_sheet stock_class of
        Inl e \<Rightarrow> (Inl e, concurrency_manager)
      | Inr bs \<Rightarrow>
     (case loc_first bs (1400, ''Equity'') of
        Inl e \<Rightarrow> (Inl e, concurrency_manager)
      | Inr equity \<Rightarrow>
     (case shares stock_class of
        Inl e \<Rightarrow> (Inl e, concurrency_manager)
      | Inr shares_outstanding \<Rightarrow>
     (case prices stock_class of
        Inl e \<Rightarrow> (Inl e, concurrency_manager)
      | Inr c \<Rightarrow>
     (case last_price c of
        Inl e \<Rightarrow> (Inl e, concurrency_manager)
      | Inr price \<Rightarrow>
     (case (case py_div equity shares_outstanding of
              Inl e \<Rightarrow> Inl e
            | Inr book_value \<Rightarrow> py_div price book_value) of
        Inr ratio \<Rightarrow>
          (Inr (Some (py_round ratio 2)),
           concurrency_manager(''P/B Ratio'' \<mapsto> [''P/B Ratio'' \<mapsto> Num (py_round ratio 2)]))
      | Inl ZeroDivisionError \<Rightarrow>
          (Inr None, concurrency_manager(''P/B Ratio'' \<mapsto> [''P/B Ratio'' \<mapsto> NA]))
      | Inl e \<Rightarrow> (Inl e, concurrency_manager)))))))"

section \<open>Earnings yield\<close>

subsection \<open>The clock and the strings compared with the filing dates\<close>

text \<open>
  \<^verbatim>\<open>dt.datetime.today()\<close> is read anew at every call, so the clock is the sequence of
  its readings: \<open>clk k\<close> is what the \<open>k\<close>-th call returns. \<^verbatim>\<open>ep_ratio\<close> reads it twice
  for the unused \<^verbatim>\<open>start\<close>/\<^verbatim>\<open>end\<close> strings (readings 0 and 1), then once for every
  column in each list comprehension. Readings are assumed to lie after year 1, where
  subtracting 100 days stays in the range of \<^verbatim>\<open>datetime\<close>.
\<close>

record datetime =
  year :: nat
  month :: nat
  day :: nat
  hour :: nat
  minute :: nat
  second :: nat
  microsecond :: nat

type_synonym clock = "nat \<Rightarrow> datetime"

text \<open>Days since 1970-01-01 in the proleptic Gregorian calendar, and back.\<close>

definition days_from_civil :: "int \<Rightarrow> int \<Rightarrow> int \<Rightarrow> int" where
  "days_from_civil y m d =
     (let y' = (if m \<le> 2 then y - 1 else y);
          era = y' div 400;
          yoe = y' - era * 400;
          doy = (153 * (if 2 < m then m - 3 else m + 9) + 2) div 5 + d - 1;
          doe = yoe * 365 + yoe div 4 - yoe div 100 + doy
      in era * 146097 + doe - 719468)"

definition civil_from_days :: "int \<Rightarrow> int \<times> int \<times> int" where
  "civil_from_days z =
     (let z' = z + 719468;
          era = z' div 146097;
          doe = z' - era * 146097;
          yoe = (doe - doe div 1460 + doe div 36524 - doe div 146096) div 365;
          doy = doe - (365 * yoe + yoe div 4 - yoe div 100);
          mp = (5 * doy + 2) div 153;
          d = doy - (153 * mp + 2) div 5 + 1;
          m = (if mp < 10 then mp + 3 else mp - 9);
          y = yoe + era * 400
      in (if m \<le> 2 then y + 1 else y, m, d))"

text \<open>\<^verbatim>\<open>now - dt.timedelta(days=n)\<close>: the date moves back, the time of day stays.\<close>

definition minus_days :: "datetime \<Rightarrow> nat \<Rightarrow> datetime" where
  "minus_days now n =
     (case civil_from_days
             (days_from_civil (int (year now)) (int (month now)) (int (day now)) - int n) of
        (y, m, d) \<Rightarrow> now\<lparr>year := nat y, month := nat m, day := nat d\<rparr>)"

fun show_nat :: "nat \<Rightarrow> string" where
  "show_nat n =
     (if n < 10 then [char_of (48 + n)]
      else show_nat (n div 10) @ [char_of (48 + n mod 10)])"

declare show_nat.simps [simp del]

definition zero_pad :: "nat \<Rightarrow> nat \<Rightarrow> string" where
  "zero_pad width n = replicate (width - length (show_nat n)) (CHR ''0'') @ show_nat n"

text \<open>
  \<^verbatim>\<open>str\<close> of a \<^verbatim>\<open>datetime\<close>: date, a blank, the time of day, and the microseconds when
  they are not zero, as in \<^verbatim>\<open>2024-10-07 10:30:00.000250\<close>.
\<close>

definition str_datetime :: "datetime \<Rightarrow> string" where
  "str_datetime t =
     zero_pad 4 (year t) @ ''-'' @ zero_pad 2 (month t) @ ''-'' @ zero_pad 2 (day t)
     @ '' '' @ zero_pad 2 (hour t) @ '':'' @ zero_pad 2 (minute t) @ '':''
     @ zero_pad 2 (second t)
     @ (if microsecond t = 0 then [] else ''.'' @ zero_pad 6 (microsecond t))"

text \<open>Python's \<^verbatim>\<open>needle in hay\<close> on strings.\<close>

fun starts_with :: "string \<Rightarrow> string \<Rightarrow> bool" where
  "starts_with hay [] = True"
| "starts_with [] (n # ns) = False"
| "starts_with (h # hs) (n # ns) = (h = n \<and> starts_with hs ns)"

fun str_contains :: "string \<Rightarrow> string \<Rightarrow> bool" where
  "str_contains [] needle = (needle = [])"
| "str_contains (h # hs) needle = (starts_with (h # hs) needle \<or> str_contains hs needle)"

definition in_current_year :: "datetime \<Rightarrow> string \<Rightarrow> bool" where
  "in_current_year now date = str_contains date (show_nat (year now))"

definition hundred_days_before :: "datetime \<Rightarrow> string \<Rightarrow> bool" where
  "hundred_days_before now date = str_contains date (str_datetime (minus_days now 100))"

text \<open>
  A list comprehension whose test reads the clock: the \<open>k\<close>-th reading is used for the
  first date, the next for the second, and so on.
\<close>

fun filter_by_clock ::
  "(datetime \<Rightarrow> string \<Rightarrow> bool) \<Rightarrow> clock \<Rightarrow> nat \<Rightarrow> string list \<Rightarrow> string list" where
  "filter_by_clock test clk k [] = []"
| "filter_by_clock test clk k (date # dates) =
     (if test (clk k) date then date # filter_by_clock test clk (Suc k) dates
      else filter_by_clock test clk (Suc k) dates)"

subsection \<open>Selecting the filing dates and summing the earnings\<close>

definition current_years_filings :: "clock \<Rightarrow> string list \<Rightarrow> string list" where
  "current_years_filings clk filings_dates = filter_by_clock in_current_year clk 2 filings_dates"

text \<open>
  Lines 38 to 45. \<^verbatim>\<open>[(4 - n) * filings[0]]\<close> is a list of one element, the first date
  multiplied by \<open>4 - n\<close>; on a string that is the string repeated.
\<close>

definition selected_filings :: "clock \<Rightarrow> string list \<Rightarrow> string list" where
  "selected_filings clk filings_dates =
     (let filings = current_years_filings clk filings_dates
      in if 4 > length filings \<and> length filings > 0 then
           (let missing_values = [concat (replicate (4 - length filings) (hd filings))]
            in filings @ missing_values)
         else if length filings = 0 then
           filter_by_clock hundred_days_before clk (2 + length filings_dates) filings_dates
         else filings)"

text \<open>
  \<^verbatim>\<open>frame[labels]\<close>: for each label in turn the columns that carry it, \<^verbatim>\<open>KeyError\<close> when
  a label is no column of the frame. \<^verbatim>\<open>frame.loc[key].to_list()\<close>: the cells of the row.
\<close>

definition getitem_columns :: "table \<Rightarrow> string list \<Rightarrow> error + table" where
  "getitem_columns t labels =
     (if \<forall>l \<in> set labels. l \<in> set (map fst (columns t))
      then Inr (t\<lparr>columns := concat (map (\<lambda>l. filter (\<lambda>c. fst c = l) (columns t)) labels)\<rparr>)
      else Inl KeyError)"

definition loc_row :: "table \<Rightarrow> line_item \<Rightarrow> error + real list" where
  "loc_row t key =
     (if key \<notin> set (index t) then Inl KeyError
      else Inr (map (\<lambda>c. snd c key) (columns t)))"

definition summed_eps :: "table \<Rightarrow> string list \<Rightarrow> error + real" where
  "summed_eps fundamentals filings =
     (case getitem_columns fundamentals filings of
        Inl e \<Rightarrow> Inl e
      | Inr frame \<Rightarrow>
     (case loc_row frame (4200, ''Basic Earnings Per Share'') of
        Inl e \<Rightarrow> Inl e
      | Inr eps \<Rightarrow> Inr (sum_list eps)))"

definition ep_ratio :: "clock \<Rightarrow> stock \<Rightarrow> store \<Rightarrow> outcome" where
  "ep_ratio clk stock_class concurrency_manager =
     (case income_statement stock_class of
        Inl e \<Rightarrow> (Inl e, concurrency_manager)
      | Inr fundamentals \<Rightarrow>
     (case summed_eps fundamentals
             (selected_filings clk (map fst (columns fundamentals))) of
        Inl e \<Rightarrow> (Inl e, concurrency_manager)
      | Inr eps_total \<Rightarrow>
     (case prices stock_class of
        Inl e \<Rightarrow> (Inl e, concurrency_manager)
      | Inr c \<Rightarrow>
     (case last_price c of
        Inl e \<Rightarrow> (Inl e, concurrency_manager)
      | Inr price \<Rightarrow>
     (case py_div eps_total price of
        Inr stock_ep_ratio \<Rightarrow>
          (Inr (Some (py_round stock_ep_ratio 2)),
           concurrency_manager(''E/P Ratio'' \<mapsto> [''E/P Ratio'' \<mapsto> Num (py_round stock_ep_ratio 2)]))
      | Inl ZeroDivisionError \<Rightarrow>
          (Inr None, concurrency_manager(''E/P Ratio'' \<mapsto> [''E/P Ratio'' \<mapsto> NA]))
      | Inl e \<Rightarrow> (Inl e, concurrency_manager))))))"

section \<open>Dividend growth\<close>





section \<open>Sample data\<close>

text \<open>
  A balance sheet with one filing, an income statement with one filing per given date,
  a security whose accessors return the given data, one that pays the given dividends and
  one whose every fetch fails; a clock that always reads 2025-01-15 10:30:00.000250; a few
  lists of filings with their earnings per share; and a store that already holds results.
\<close>

definition balance_table :: "real \<Rightarrow> real \<Rightarrow> real \<Rightarrow> table" where
  "balance_table assets liabilities equity =
     \<lparr>index = [(100, ''Assets''), (600, ''Liabilities''), (1400, ''Equity'')],
      columns = [(''2024-12-31'',
                  \<lambda>key. if key = (100, ''Assets'') then assets
                        else if key = (600, ''Liabilities'') then liabilities
                        else equity)]\<rparr>"

definition income_table :: "real \<Rightarrow> (string \<times> real) list \<Rightarrow> table" where
  "income_table income eps =
     \<lparr>index = [(3200, ''Net Income/Loss''), (4200, ''Basic Earnings Per Share'')],
      columns = map (\<lambda>(date, e).
                  (date, \<lambda>key. if key = (3200, ''Net Income/Loss'') then income else e)) eps\<rparr>"

definition listed :: "table \<Rightarrow> table \<Rightarrow> real list \<Rightarrow> real \<Rightarrow> stock" where
  "listed bs inc ps sh =
     \<lparr>income_statement = Inr inc, balance_sheet = Inr bs, prices = Inr ps,
      shares = Inr sh, dividends = Inl (FetchError ''no dividends'')\<rparr>"

definition unlisted :: stock where
  "unlisted =
     \<lparr>income_statement = Inl (FetchError ''unknown ticker''),
      balance_sheet = Inl (FetchError ''unknown ticker''),
      prices = Inl (FetchError ''unknown ticker''),
      shares = Inl (FetchError ''unknown ticker''),
      dividends = Inl (FetchError ''unknown ticker'')\<rparr>"

definition year_2025 :: clock where
  "year_2025 = (\<lambda>k. \<lparr>year = 2025, month = 1, day = 15, hour = 10, minute = 30, second = 0,
                       microsecond = 250\<rparr>)"


definition five_filings :: "(string \<times> real) list" where
  "five_filings =
     [(''2025-12-31'', 5), (''2025-09-30'', 4), (''2025-06-30'', 3), (''2025-03-31'', 2),
      (''2025-01-31'', 1), (''2024-12-31'', 7)]"

definition two_filings :: "(string \<times> real) list" where
  "two_filings = [(''2025-06-30'', 2), (''2025-03-31'', 1), (''2024-12-31'', 7)]"

definition stale_filings :: "(string \<times> real) list" where
  "stale_filings = [(''2024-10-07'', 3), (''2024-07-09'', 2)]"


definition some_results :: store where
  "some_results = [''ROE'' \<mapsto> [''ROE'' \<mapsto> Num (1 / 4)], ''ROA'' \<mapsto> [''ROA'' \<mapsto> NA]]"

section \<open>What a call leaves behind\<close>


definition shaped :: "outcome \<Rightarrow> store \<Rightarrow> string \<Rightarrow> nat \<Rightarrow> bool" where
  "shaped out cm k nd \<longleftrightarrow>
     (\<exists>e. out = (Inl e, cm))
     \<or> out = (Inr None, cm(k \<mapsto> [k \<mapsto> NA]))
     \<or> (\<exists>q. out = (Inr (Some (py_round q nd)), cm(k \<mapsto> [k \<mapsto> Num (py_round q nd)])))"



section \<open>Dividend growth in the words of the specification\<close>



section \<open>Rounding\<close>



section \<open>Every call ends in one of the three ways\<close>

lemma current_ratio_shape: "shaped (current_ratio s cm) cm ''Current Ratio'' 2"
  unfolding shaped_def current_ratio_def py_div_def
  by (auto split: sum.splits error.splits)

lemma ro_equity_shape: "shaped (ro_equity s cm) cm ''ROE'' 2"
  unfolding shaped_def ro_equity_def py_div_def
  by (auto split: sum.splits error.splits)

lemma ro_assets_shape: "shaped (ro_assets s cm) cm ''ROA'' 2"
  unfolding shaped_def ro_assets_def py_div_def
  by (auto split: sum.splits error.splits)

lemma pb_ratio_shape: "shaped (pb_ratio s cm) cm ''P/B Ratio'' 2"
  unfolding shaped_def pb_ratio_def py_div_def
  by (auto split: sum.splits error.splits)

lemma ep_ratio_shape: "shaped (ep_ratio clk s cm) cm ''E/P Ratio'' 2"
  unfolding shaped_def ep_ratio_def py_div_def
  by (auto split: sum.splits error.splits)








lemma shaped_raise: "shaped out cm k nd \<Longrightarrow> fst out = Inl e \<Longrightarrow> snd out = cm"
  by (auto simp: shaped_def)












section \<open>The ratio formulas\<close>



section \<open>Division by zero\<close>





section \<open>The price-to-book formula\<close>



section \<open>The store\<close>





text \<open>
  Claim C10. When a ratio function ends with an exception, which can only be one that the
  handler for \<open>ZeroDivisionError\<close> did not catch, the store is exactly as it was before
  the call.
\<close>

theorem other_exceptions_leave_store:
  "(fst (ep_ratio clk s cm) = Inl e \<longrightarrow> snd (ep_ratio clk s cm) = cm)
   \<and> (fst (pb_ratio s cm) = Inl e \<longrightarrow> snd (pb_ratio s cm) = cm)
   \<and> (fst (current_ratio s cm) = Inl e \<longrightarrow> snd (current_ratio s cm) = cm)
   \<and> (fst (ro_equity s cm) = Inl e \<longrightarrow> snd (ro_equity s cm) = cm)
   \<and> (fst (ro_assets s cm) = Inl e \<longrightarrow> snd (ro_assets s cm) = cm)"
  using shaped_raise [OF ep_ratio_shape] shaped_raise [OF pb_ratio_shape]
    shaped_raise [OF current_ratio_shape] shaped_raise [OF ro_equity_shape]
    shaped_raise [OF ro_assets_shape]
  by (intro conjI impI)


theorem other_exceptions_leave_store_witness:
  "fst (ep_ratio year_2025 unlisted some_results) = Inl (FetchError ''unknown ticker'')
   \<and> snd (ep_ratio year_2025 unlisted some_results) = some_results
   \<and> fst (pb_ratio unlisted some_results) = Inl (FetchError ''unknown ticker'')
   \<and> snd (pb_ratio unlisted some_results) = some_results
   \<and> fst (current_ratio unlisted some_results) = Inl (FetchError ''unknown ticker'')
   \<and> snd (current_ratio unlisted some_results) = some_results
   \<and> fst (ro_equity unlisted some_results) = Inl (FetchError ''unknown ticker'')
   \<and> snd (ro_equity unlisted some_results) = some_results
   \<and> fst (ro_assets unlisted some_results) = Inl (FetchError ''unknown ticker'')
   \<and> snd (ro_assets unlisted some_results) = some_results"
proof -
  have raised: "fst (ep_ratio year_2025 unlisted some_results) = Inl (FetchError ''unknown ticker'')"
    "fst (pb_ratio unlisted some_results) = Inl (FetchError ''unknown ticker'')"
    "fst (current_ratio unlisted some_results) = Inl (FetchError ''unknown ticker'')"
    "fst (ro_equity unlisted some_results) = Inl (FetchError ''unknown ticker'')"
    "fst (ro_assets unlisted some_results) = Inl (FetchError ''unknown ticker'')"
    by (simp_all add: ep_ratio_def pb_ratio_def current_ratio_def ro_equity_def ro_assets_def
        unlisted_def)
  show ?thesis
    using other_exceptions_leave_store [where clk = year_2025 and s = unlisted
        and cm = some_results and e = "FetchError ''unknown ticker''"] raised
    by (simp only: simp_thms)
qed

section \<open>The filing dates of the earnings yield\<close>

lemma filter_by_clock_subset: "set (filter_by_clock test clk k dates) \<subseteq> set dates"
  by (induction dates arbitrary: k) auto

lemma current_years_filings_subset:
  "set (current_years_filings clk dates) \<subseteq> set dates"
  by (simp add: current_years_filings_def filter_by_clock_subset)

lemma sum_list_concat_map:
  "sum_list (map f (concat (map g ls))) = (\<Sum>l\<leftarrow>ls. sum_list (map f (g l)))"
  by (induction ls) simp_all

lemma summed_eps_of_columns:
  assumes "set labels \<subseteq> set (map fst (columns t))"
    and "(4200, ''Basic Earnings Per Share'') \<in> set (index t)"
  shows "summed_eps t labels =
     Inr (\<Sum>l\<leftarrow>labels. \<Sum>c\<leftarrow>filter (\<lambda>c. fst c = l) (columns t).
            snd c (4200, ''Basic Earnings Per Share''))"
proof -
  have "getitem_columns t labels =
      Inr (t\<lparr>columns := concat (map (\<lambda>l. filter (\<lambda>c. fst c = l) (columns t)) labels)\<rparr>)"
    using assms(1) by (auto simp: getitem_columns_def)
  then show ?thesis
    using assms(2) by (simp add: summed_eps_def loc_row_def sum_list_concat_map)
qed

text \<open>
  Claim C6. With four or more filing dates of the current year, \<open>ep_ratio\<close> keeps all of
  them, however many, and the trailing earnings are the sum of the row of Basic Earnings Per
  Share (line item 4200) over every selected column.
\<close>

theorem four_or_more_all_summed:
  "4 \<le> length (current_years_filings clk (map fst (columns t)))
     \<and> (4200, ''Basic Earnings Per Share'') \<in> set (index t)
   \<longrightarrow> selected_filings clk (map fst (columns t))
         = current_years_filings clk (map fst (columns t))
       \<and> summed_eps t (selected_filings clk (map fst (columns t)))
         = Inr (\<Sum>l\<leftarrow>current_years_filings clk (map fst (columns t)).
                  \<Sum>c\<leftarrow>filter (\<lambda>c. fst c = l) (columns t).
                     snd c (4200, ''Basic Earnings Per Share''))"
proof (intro impI, elim conjE)
  assume many: "4 \<le> length (current_years_filings clk (map fst (columns t)))"
    and row: "(4200, ''Basic Earnings Per Share'') \<in> set (index t)"
  from many have same: "selected_filings clk (map fst (columns t))
         = current_years_filings clk (map fst (columns t))"
    by (auto simp: selected_filings_def Let_def)
  have "summed_eps t (current_years_filings clk (map fst (columns t)))
         = Inr (\<Sum>l\<leftarrow>current_years_filings clk (map fst (columns t)).
                  \<Sum>c\<leftarrow>filter (\<lambda>c. fst c = l) (columns t).
                     snd c (4200, ''Basic Earnings Per Share''))"
    using current_years_filings_subset row by (rule summed_eps_of_columns)
  with same show "selected_filings clk (map fst (columns t))
         = current_years_filings clk (map fst (columns t))
       \<and> summed_eps t (selected_filings clk (map fst (columns t)))
         = Inr (\<Sum>l\<leftarrow>current_years_filings clk (map fst (columns t)).
                  \<Sum>c\<leftarrow>filter (\<lambda>c. fst c = l) (columns t).
                     snd c (4200, ''Basic Earnings Per Share''))"
    by simp
qed

lemma five_filings_current:
  "current_years_filings year_2025 (map fst five_filings)
     = [''2025-12-31'', ''2025-09-30'', ''2025-06-30'', ''2025-03-31'', ''2025-01-31'']"
  by code_simp

theorem four_or_more_all_summed_witness:
  "selected_filings year_2025 (map fst (columns (income_table 50 five_filings)))
     = [''2025-12-31'', ''2025-09-30'', ''2025-06-30'', ''2025-03-31'', ''2025-01-31'']
   \<and> summed_eps (income_table 50 five_filings)
        (selected_filings year_2025 (map fst (columns (income_table 50 five_filings))))
     = Inr 15"
proof -
  let ?t = "income_table 50 five_filings"
  have labels: "map fst (columns ?t) = map fst five_filings"
    by (simp add: income_table_def five_filings_def)
  have current: "current_years_filings year_2025 (map fst (columns ?t))
     = [''2025-12-31'', ''2025-09-30'', ''2025-06-30'', ''2025-03-31'', ''2025-01-31'']"
    by (simp only: labels five_filings_current)
  have many: "4 \<le> length (current_years_filings year_2025 (map fst (columns ?t)))"
    by (simp add: current)
  have row: "(4200, ''Basic Earnings Per Share'') \<in> set (index ?t)"
    by (simp add: income_table_def)
  have total: "(\<Sum>l\<leftarrow>[''2025-12-31'', ''2025-09-30'', ''2025-06-30'', ''2025-03-31'', ''2025-01-31''].
                  \<Sum>c\<leftarrow>filter (\<lambda>c. fst c = l) (columns ?t).
                     snd c (4200, ''Basic Earnings Per Share'')) = 15"
    by (simp add: income_table_def five_filings_def)
  have "selected_filings year_2025 (map fst (columns ?t))
         = current_years_filings year_2025 (map fst (columns ?t))
       \<and> summed_eps ?t (selected_filings year_2025 (map fst (columns ?t)))
         = Inr (\<Sum>l\<leftarrow>current_years_filings year_2025 (map fst (columns ?t)).
                  \<Sum>c\<leftarrow>filter (\<lambda>c. fst c = l) (columns ?t).
                     snd c (4200, ''Basic Earnings Per Share''))"
    by (rule four_or_more_all_summed [of year_2025 ?t, THEN mp, OF conjI [OF many row]])
  then show ?thesis
    unfolding current total .
qed


subsection \<open>Fewer than four filings this year\<close>

lemma padding_appends_one_entry:
  assumes "0 < length (current_years_filings clk dates)"
    and "length (current_years_filings clk dates) < 4"
  shows "selected_filings clk dates
      = current_years_filings clk dates
        @ [concat (replicate (4 - length (current_years_filings clk dates))
                     (hd (current_years_filings clk dates)))]"
    and "length (selected_filings clk dates) = length (current_years_filings clk dates) + 1"
  using assms by (simp_all add: selected_filings_def Let_def)

lemma two_filings_current:
  "current_years_filings year_2025 (map fst two_filings) = [''2025-06-30'', ''2025-03-31'']"
  by code_simp

text \<open>
  Claim C1. The padding of line 39 does not bring the list to four entries: it appends one
  entry, the first date repeated \<open>4 - n\<close> times in one string. With the two filings
  2025-06-30 and 2025-03-31 of the current year the selected list has three entries, the
  third is no column of the table, the lookup raises \<open>KeyError\<close> and nothing is deposited;
  the earnings are not summed to \<open>eps[first] * 3 + eps[second]\<close>.
\<close>

theorem two_matches_padded_to_three:
  "current_years_filings year_2025 (map fst (columns (income_table 50 two_filings)))
     = [''2025-06-30'', ''2025-03-31'']
   \<and> selected_filings year_2025 (map fst (columns (income_table 50 two_filings)))
     = [''2025-06-30'', ''2025-03-31'', ''2025-06-302025-06-30'']
   \<and> summed_eps (income_table 50 two_filings)
        (selected_filings year_2025 (map fst (columns (income_table 50 two_filings))))
     = Inl KeyError
   \<and> ep_ratio year_2025
        (listed (balance_table 0 0 0) (income_table 50 two_filings) [20] 0) some_results
     = (Inl KeyError, some_results)"
proof -
  let ?t = "income_table 50 two_filings"
  have labels: "map fst (columns ?t) = map fst two_filings"
    by (simp add: income_table_def two_filings_def)
  have current: "current_years_filings year_2025 (map fst (columns ?t))
     = [''2025-06-30'', ''2025-03-31'']"
    by (simp only: labels two_filings_current)
  have selected: "selected_filings year_2025 (map fst (columns ?t))
     = [''2025-06-30'', ''2025-03-31'', ''2025-06-302025-06-30'']"
    by (simp add: selected_filings_def current numeral_2_eq_2)
  have failed: "summed_eps ?t [''2025-06-30'', ''2025-03-31'', ''2025-06-302025-06-30'']
     = Inl KeyError"
    by (simp add: summed_eps_def getitem_columns_def income_table_def two_filings_def)
  have raised: "ep_ratio year_2025 (listed (balance_table 0 0 0) ?t [20] 0) some_results
     = (Inl KeyError, some_results)"
    by (simp add: ep_ratio_def listed_def selected failed)
  from current selected failed raised show ?thesis
    by (simp only: simp_thms)
qed

subsection \<open>No filing this year\<close>

lemma starts_with_length: "starts_with hay needle \<Longrightarrow> length needle \<le> length hay"
  by (induction hay needle rule: starts_with.induct) simp_all

lemma str_contains_length: "str_contains hay needle \<Longrightarrow> length needle \<le> length hay"
proof (induction hay)
  case Nil
  then show ?case by simp
next
  case (Cons h hs)
  from Cons.prems have "starts_with (h # hs) needle \<or> str_contains hs needle"
    by simp
  then show ?case
  proof
    assume "starts_with (h # hs) needle"
    then show ?thesis by (rule starts_with_length)
  next
    assume "str_contains hs needle"
    then have "length needle \<le> length hs" by (rule Cons.IH)
    then show ?thesis by simp
  qed
qed

lemma zero_pad_length: "width \<le> length (zero_pad width n)"
  by (simp add: zero_pad_def)

lemma str_datetime_length: "19 \<le> length (str_datetime t)"
proof -
  have "4 \<le> length (zero_pad 4 (year t))" "2 \<le> length (zero_pad 2 (month t))"
    "2 \<le> length (zero_pad 2 (day t))" "2 \<le> length (zero_pad 2 (hour t))"
    "2 \<le> length (zero_pad 2 (minute t))" "2 \<le> length (zero_pad 2 (second t))"
    by (rule zero_pad_length)+
  then show ?thesis by (simp add: str_datetime_def)
qed

lemma fallback_skips_short_labels:
  "length date < 19 \<Longrightarrow> \<not> hundred_days_before now date"
  using str_contains_length [of date "str_datetime (minus_days now 100)"]
    str_datetime_length [of "minus_days now 100"]
  by (auto simp: hundred_days_before_def)

lemma stale_filings_selected:
  "current_years_filings year_2025 (map fst stale_filings) = []"
  "str_datetime (minus_days (year_2025 4) 100) = ''2024-10-07 10:30:00.000250''"
  "selected_filings year_2025 (map fst stale_filings) = []"
  by code_simp+

text \<open>
  Claim C5. The fallback of line 45 compares every column with the string of the whole
  \<open>datetime\<close> 100 days back, time of day and microseconds included, not with the date. On
  2025-01-15 at 10:30:00.000250 the column 2024-10-07, which is the date 100 days before,
  is not selected; no column is, the earnings sum to 0 and an earnings yield of 0 is
  deposited.
\<close>

theorem fallback_compares_full_timestamp:
  "current_years_filings year_2025 (map fst (columns (income_table 50 stale_filings))) = []
   \<and> str_datetime (minus_days (year_2025 4) 100) = ''2024-10-07 10:30:00.000250''
   \<and> map fst (columns (income_table 50 stale_filings)) = [''2024-10-07'', ''2024-07-09'']
   \<and> selected_filings year_2025 (map fst (columns (income_table 50 stale_filings))) = []
   \<and> ep_ratio year_2025
        (listed (balance_table 0 0 0) (income_table 50 stale_filings) [20] 0) Map.empty
     = (Inr (Some 0), [''E/P Ratio'' \<mapsto> [''E/P Ratio'' \<mapsto> Num 0]])"
proof -
  let ?t = "income_table 50 stale_filings"
  have labels: "map fst (columns ?t) = map fst stale_filings"
    "map fst (columns ?t) = [''2024-10-07'', ''2024-07-09'']"
    by (simp_all add: income_table_def stale_filings_def)
  have no_columns: "summed_eps ?t [] = Inr 0"
    by (simp add: summed_eps_def getitem_columns_def loc_row_def income_table_def)
  have selected: "selected_filings year_2025 (map fst (columns ?t)) = []"
    by (simp only: labels(1) stale_filings_selected)
  have returned: "ep_ratio year_2025 (listed (balance_table 0 0 0) ?t [20] 0) Map.empty
     = (Inr (Some 0), [''E/P Ratio'' \<mapsto> [''E/P Ratio'' \<mapsto> Num 0]])"
    unfolding ep_ratio_def
    by (simp add: listed_def selected no_columns last_price_def py_div_def
        py_round_def round_half_even_def)
  have current: "current_years_filings year_2025 (map fst (columns ?t)) = []"
    by (simp only: labels(1) stale_filings_selected)
  from current stale_filings_selected(2) labels(2) selected returned show ?thesis
    by (simp only: simp_thms)
qed

section \<open>The average dividend growth\<close>











end
